theory Spec2Isabelle
  imports Main
begin

section \<open>Python exceptions, indexing and the environment\<close>

text \<open>
  The script \<^verbatim>\<open>day1/main.py\<close> constructs six haystack components, adds them to a
  pipeline, connects them into a chain, runs the pipeline once on a fixed list of URLs
  and a fixed query, and prints \<^verbatim>\<open>result["generator"]["replies"][0]\<close>. What the
  components do when they are constructed and when they run is library code; the model
  takes it as a parameter (\<open>library\<close> below) and fixes what the script itself decides:
  the arguments of the constructors, the template, the connections, the run's inputs and
  the printed value.
\<close>

text \<open>
  Exceptions are values. \<open>KeyError\<close> is raised by \<^verbatim>\<open>os.environ[name]\<close>,
  \<open>IndexError\<close> by indexing a list out of range; \<open>ComponentError\<close> stands for whatever
  the library raises (its argument names the component).
\<close>

datatype error =
    KeyError string
  | IndexError
  | ComponentError string

definition and_then :: "error + 'a \<Rightarrow> ('a \<Rightarrow> error + 'b) \<Rightarrow> error + 'b" where
  "and_then r f = (case r of Inl e \<Rightarrow> Inl e | Inr v \<Rightarrow> f v)"

text \<open>
  A call made for its effect only either raises (\<open>Some e\<close>) or returns (\<open>None\<close>);
  \<open>after r k\<close> goes on with \<open>k\<close> when it returned.
\<close>

definition after :: "error option \<Rightarrow> error + 'a \<Rightarrow> error + 'a" where
  "after r k = (case r of Some e \<Rightarrow> Inl e | None \<Rightarrow> k)"

text \<open>
  \<^verbatim>\<open>xs[i]\<close> on a Python list: indices \<open>0 .. len - 1\<close> count from the front,
  \<open>-len .. -1\<close> from the back, every other index raises.
\<close>

definition list_getitem :: "'a list \<Rightarrow> int \<Rightarrow> error + 'a" where
  "list_getitem xs i =
     (if 0 \<le> i \<and> i < int (length xs) then Inr (xs ! nat i)
      else if i < 0 \<and> - int (length xs) \<le> i then Inr (xs ! nat (int (length xs) + i))
      else Inl IndexError)"

text \<open>
  \<^verbatim>\<open>os.environ[name]\<close>: the process environment (after \<^verbatim>\<open>load_dotenv()\<close> of
  line 13 has added the entries of a \<^verbatim>\<open>.env\<close> file) is a map from names to
  strings; a missing name raises \<open>KeyError\<close>.
\<close>

type_synonym environ = "string \<rightharpoonup> string"

definition environ_getitem :: "environ \<Rightarrow> string \<Rightarrow> error + string" where
  "environ_getitem env name =
     (case env name of None \<Rightarrow> Inl (KeyError name) | Some v \<Rightarrow> Inr v)"

section \<open>Documents and the prompt template\<close>

text \<open>
  The template reads two things of a document: \<^verbatim>\<open>document.content\<close> and
  \<^verbatim>\<open>document.meta.url\<close>. A document is its text and its metadata dictionary.
\<close>

record document =
  content :: string
  meta :: "(string \<times> string) list"

text \<open>
  The template of lines 21 to 29 is a Jinja template. It uses three constructs: literal
  text, an output expression \<^verbatim>\<open>{{ e }}\<close> and the loop
  \<^verbatim>\<open>{% for document in documents %} ... {% endfor %}\<close>. The three expressions that occur
  are the constructors of \<open>expr\<close>.
\<close>

datatype expr = Document_content | Document_meta_url | Query

datatype node =
    Data string
  | Output expr
  | For "node list"

fun expr_source :: "expr \<Rightarrow> string" where
  "expr_source Document_content = ''document.content''"
| "expr_source Document_meta_url = ''document.meta.url''"
| "expr_source Query = ''query''"

fun unparse :: "node \<Rightarrow> string" where
  "unparse (Data s) = s"
| "unparse (Output e) = ''{{ '' @ expr_source e @ '' }}''"
| "unparse (For body) =
     ''{% for document in documents %}'' @ concat (map unparse body) @ ''{% endfor %}''"

text \<open>The template string, character for character as the source has it.\<close>

definition template :: string where
  "template =
     ''Given the information below, answer the query. Only use the provided context to generate the answer and output the used document links\<newline>                Context:\<newline>                {% for document in documents %}\<newline>                    {{ document.content }}\<newline>                    URL: {{ document.meta.url }}\<newline>                {% endfor %}\<newline>\<newline>                Question: {{ query }}\<newline>                Answer:''"

text \<open>The same template as a syntax tree.\<close>

definition template_nodes :: "node list" where
  "template_nodes =
     [Data ''Given the information below, answer the query. Only use the provided context to generate the answer and output the used document links\<newline>                Context:\<newline>                '',
      For [Data ''\<newline>                    '',
           Output Document_content,
           Data ''\<newline>                    URL: '',
           Output Document_meta_url,
           Data ''\<newline>                ''],
      Data ''\<newline>\<newline>                Question: '',
      Output Query,
      Data ''\<newline>                Answer:'']"

text \<open>
  Evaluation of an expression. \<open>cur\<close> is the loop variable \<^verbatim>\<open>document\<close>: \<open>None\<close>
  outside the loop. Jinja renders an undefined name, and a missing dictionary key, as the
  empty string.
\<close>

fun eval_expr :: "document option \<Rightarrow> string \<Rightarrow> expr \<Rightarrow> string" where
  "eval_expr cur q Query = q"
| "eval_expr None q Document_content = []"
| "eval_expr (Some d) q Document_content = content d"
| "eval_expr None q Document_meta_url = []"
| "eval_expr (Some d) q Document_meta_url =
     (case map_of (meta d) ''url'' of None \<Rightarrow> [] | Some u \<Rightarrow> u)"

fun render_node :: "document list \<Rightarrow> string \<Rightarrow> document option \<Rightarrow> node \<Rightarrow> string" where
  "render_node docs q cur (Data s) = s"
| "render_node docs q cur (Output e) = eval_expr cur q e"
| "render_node docs q cur (For body) =
     concat (map (\<lambda>d. concat (map (render_node docs q (Some d)) body)) docs)"

definition render :: "node list \<Rightarrow> document list \<Rightarrow> string \<Rightarrow> string" where
  "render nodes docs q = concat (map (render_node docs q None) nodes)"

text \<open>
  \<^verbatim>\<open>PromptBuilder(template=template)\<close>, run with the ranked documents and the query.
\<close>

definition prompt_builder_run :: "document list \<Rightarrow> string \<Rightarrow> string" where
  "prompt_builder_run docs q = render template_nodes docs q"

text \<open>The output expressions of a template, in order, and the number of its loops.\<close>

fun outputs :: "node \<Rightarrow> expr list" where
  "outputs (Data s) = []"
| "outputs (Output e) = [e]"
| "outputs (For body) = concat (map outputs body)"

fun loops :: "node \<Rightarrow> nat" where
  "loops (Data s) = 0"
| "loops (Output e) = 0"
| "loops (For body) = Suc (sum_list (map loops body))"

section \<open>The components and their arguments\<close>

text \<open>
  A haystack \<^verbatim>\<open>Secret\<close> is made in one of two ways in the script:
  \<^verbatim>\<open>Secret.from_token(value)\<close> wraps a value the script already holds,
  \<^verbatim>\<open>Secret.from_env_var(name)\<close> names an environment variable.
\<close>

datatype secret = Token string | EnvVar string

record ranker_args =
  ranker_api_key :: secret

record splitter_args =
  split_by :: string
  split_length :: int

record generator_args =
  generator_api_key :: secret
  api_base_url :: string
  model :: string
  generation_kwargs :: "(string \<times> int) list"

text \<open>
  The components the script constructs with arguments (\<^verbatim>\<open>LinkContentFetcher()\<close> and
  \<^verbatim>\<open>HTMLToDocument()\<close> take none).
\<close>

record components =
  reranker :: ranker_args
  splitter :: splitter_args
  prompt_builder :: string
  generator :: generator_args

text \<open>Line 20: the arguments of \<^verbatim>\<open>DocumentSplitter\<close>.\<close>

definition splitter_arguments :: splitter_args where
  "splitter_arguments = \<lparr> split_by = ''sentence'', split_length = 10 \<rparr>"

text \<open>Lines 32 to 37: the arguments of \<^verbatim>\<open>OpenAIGenerator\<close>, all of them literals.\<close>

definition generator_arguments :: generator_args where
  "generator_arguments =
     \<lparr> generator_api_key = EnvVar ''GROQ_API_KEY'',
       api_base_url = ''https://api.groq.com/openai/v1'',
       model = ''llama3-70b-8192'',
       generation_kwargs = [(''max_tokens'', 512)] \<rparr>"

section \<open>The pipeline graph\<close>

text \<open>Lines 39 to 44: the components by name, in the order they are added.\<close>

definition component_names :: "string list" where
  "component_names =
     [''fetcher'', ''converter'', ''splitter'', ''reranker'', ''prompt_builder'',
      ''generator'']"

text \<open>Lines 46 to 50: the connections, sender first.\<close>

definition connections :: "(string \<times> string) list" where
  "connections =
     [(''fetcher'', ''converter''),
      (''converter'', ''splitter''),
      (''splitter'', ''reranker''),
      (''reranker'', ''prompt_builder''),
      (''prompt_builder'', ''generator'')]"

text \<open>
  Lines 64 to 70: the inputs that \<^verbatim>\<open>pipeline.run\<close> hands to components directly,
  by component and input name.
\<close>

definition run_data :: "(string \<times> string list) list" where
  "run_data =
     [(''fetcher'', [''urls'']),
      (''prompt_builder'', [''query'']),
      (''reranker'', [''query''])]"

definition successors :: "string \<Rightarrow> string list" where
  "successors c = map snd (filter (\<lambda>e. fst e = c) connections)"

definition predecessors :: "string \<Rightarrow> string list" where
  "predecessors c = map fst (filter (\<lambda>e. snd e = c) connections)"

text \<open>
  Where a component's inputs come from: another component's output, over a connection,
  or the data of the run.
\<close>

datatype origin = From_component string | From_data string

definition inputs :: "string \<Rightarrow> origin list" where
  "inputs c =
     map From_component (predecessors c) @
     map From_data (concat (map snd (filter (\<lambda>d. fst d = c) run_data)))"

section \<open>The library\<close>

text \<open>
  What haystack does, as parameters. Every entry takes the process environment, which
  library code is free to read. The \<open>init\<close> entries stand for the library calls of the
  construction lines, given the arguments the script passes: they raise or return.
  \<open>reranker_init\<close> is line 19 from the token on (\<^verbatim>\<open>Secret.from_token\<close> and the
  \<^verbatim>\<open>CohereRanker\<close> constructor), \<open>generator_init\<close> is lines 32 to 37
  (\<^verbatim>\<open>Secret.from_env_var\<close> and the \<^verbatim>\<open>OpenAIGenerator\<close> constructor),
  \<open>pipeline_init\<close> is lines 38 to 50 (\<^verbatim>\<open>Pipeline()\<close>, \<^verbatim>\<open>add_component\<close>,
  \<^verbatim>\<open>connect\<close>). The \<open>run\<close> entries are the components at work: each takes the
  arguments it was constructed with and its inputs, and returns its output or raises.
  \<open>'s\<close> is the type of the fetched streams, which the script never looks into. The
  generator's output is its list of replies.
\<close>

record 's library =
  fetcher_init :: "environ \<Rightarrow> error option"
  converter_init :: "environ \<Rightarrow> error option"
  reranker_init :: "environ \<Rightarrow> ranker_args \<Rightarrow> error option"
  splitter_init :: "environ \<Rightarrow> splitter_args \<Rightarrow> error option"
  prompt_builder_init :: "environ \<Rightarrow> string \<Rightarrow> error option"
  generator_init :: "environ \<Rightarrow> generator_args \<Rightarrow> error option"
  pipeline_init :: "environ \<Rightarrow> string list \<Rightarrow> (string \<times> string) list \<Rightarrow> error option"
  fetcher_run :: "environ \<Rightarrow> string list \<Rightarrow> error + 's list"
  converter_run :: "environ \<Rightarrow> 's list \<Rightarrow> error + document list"
  splitter_run :: "environ \<Rightarrow> splitter_args \<Rightarrow> document list \<Rightarrow> error + document list"
  reranker_run ::
    "environ \<Rightarrow> ranker_args \<Rightarrow> string \<Rightarrow> document list \<Rightarrow> error + document list"
  generator_run :: "environ \<Rightarrow> generator_args \<Rightarrow> string \<Rightarrow> error + string list"

section \<open>The script\<close>

text \<open>
  Lines 17 to 50, in the order Python evaluates them. The one expression of the script
  itself that reads the environment is \<^verbatim>\<open>os.environ["COHERE_API_KEY"]\<close> of line 19,
  evaluated before the calls it is an argument of; every other argument is a literal.
  Any of the library calls may raise, which ends the script there.
\<close>

definition build_components :: "'s library \<Rightarrow> environ \<Rightarrow> error + components" where
  "build_components lib env =
     after (fetcher_init lib env) (
     after (converter_init lib env) (
     and_then (environ_getitem env ''COHERE_API_KEY'') (\<lambda>k.
     after (reranker_init lib env \<lparr> ranker_api_key = Token k \<rparr>) (
     after (splitter_init lib env splitter_arguments) (
     after (prompt_builder_init lib env template) (
     after (generator_init lib env generator_arguments) (
     after (pipeline_init lib env component_names connections) (
     Inr \<lparr> reranker = \<lparr> ranker_api_key = Token k \<rparr>,
           splitter = splitter_arguments,
           prompt_builder = template,
           generator = generator_arguments \<rparr>))))))))"

text \<open>Lines 52 to 60.\<close>

definition urls :: "string list" where
  "urls =
     [''https://haystack.deepset.ai/blog/extracting-metadata-filter'',
      ''https://haystack.deepset.ai/blog/query-expansion'',
      ''https://haystack.deepset.ai/blog/query-decomposition'',
      ''https://haystack.deepset.ai/cookbook/metadata_enrichment'']"

definition query :: string where
  "query = ''Which methods can I use to transform query for better retrieval?''"

text \<open>
  \<^verbatim>\<open>pipeline.run(data)\<close> over the chain of \<open>connections\<close>: \<open>us\<close> is the fetcher's
  \<^verbatim>\<open>urls\<close>, \<open>q_prompt\<close> the prompt builder's \<^verbatim>\<open>query\<close>, \<open>q_rerank\<close> the
  reranker's \<^verbatim>\<open>query\<close>. The value is \<^verbatim>\<open>result["generator"]["replies"]\<close>.
  The prompt builder holds the template of \<open>build_components\<close>; it renders the syntax
  tree \<open>template_nodes\<close>, which unparses to that string.
\<close>

definition pipeline_run ::
  "'s library \<Rightarrow> environ \<Rightarrow> components \<Rightarrow> string list \<Rightarrow> string \<Rightarrow> string \<Rightarrow>
     error + string list" where
  "pipeline_run lib env c us q_prompt q_rerank =
     and_then (fetcher_run lib env us) (\<lambda>streams.
     and_then (converter_run lib env streams) (\<lambda>docs.
     and_then (splitter_run lib env (splitter c) docs) (\<lambda>chunks.
     and_then (reranker_run lib env (reranker c) q_rerank chunks) (\<lambda>ranked.
     generator_run lib env (generator c) (prompt_builder_run ranked q_prompt)))))"

text \<open>
  The script from line 17 to line 71. Its value is the string handed to \<^verbatim>\<open>print\<close>,
  or the exception that ends the run.
\<close>

definition main :: "'s library \<Rightarrow> environ \<Rightarrow> error + string" where
  "main lib env =
     and_then (build_components lib env) (\<lambda>c.
     and_then (pipeline_run lib env c urls query query) (\<lambda>replies.
     list_getitem replies 0))"

text \<open>
  Concrete libraries and an environment, to run the model on. In all three every
  constructor returns; \<open>canned_library\<close> answers every prompt with two replies,
  \<open>silent_library\<close> with none, \<open>greek_library\<close> with three.
\<close>

definition canned_library :: "string library" where
  "canned_library =
     \<lparr> fetcher_init = (\<lambda>env. None),
       converter_init = (\<lambda>env. None),
       reranker_init = (\<lambda>env a. None),
       splitter_init = (\<lambda>env a. None),
       prompt_builder_init = (\<lambda>env t. None),
       generator_init = (\<lambda>env a. None),
       pipeline_init = (\<lambda>env ns es. None),
       fetcher_run = (\<lambda>env us. Inr us),
       converter_run =
         (\<lambda>env ss. Inr (map (\<lambda>u. \<lparr> content = ''Text.'', meta = [(''url'', u)] \<rparr>) ss)),
       splitter_run = (\<lambda>env a ds. Inr ds),
       reranker_run = (\<lambda>env a q ds. Inr (rev ds)),
       generator_run = (\<lambda>env a p. Inr [''first'', ''second'']) \<rparr>"

definition silent_library :: "string library" where
  "silent_library = canned_library \<lparr> generator_run := (\<lambda>env a p. Inr []) \<rparr>"

definition greek_library :: "string library" where
  "greek_library =
     canned_library \<lparr> generator_run := (\<lambda>env a p. Inr [''alpha'', ''beta'', ''gamma'']) \<rparr>"

definition example_env :: environ where
  "example_env = [''COHERE_API_KEY'' \<mapsto> ''c-key'', ''GROQ_API_KEY'' \<mapsto> ''g-key'']"

section \<open>Properties of the prompt template\<close>

lemma template_nodes_unparse: "concat (map unparse template_nodes) = template"
  by (simp add: template_nodes_def template_def)

text \<open>
  Claim C8. For every list of ranked chunks and every query, the prompt assembler yields
  one string, obtained from the template by substitution: the fixed opening text, then for
  each chunk in order its content and its \<open>url\<close> metadata (empty when the chunk has none)
  between fixed pieces of text, then the query between fixed pieces of text. The template
  has exactly three output expressions (chunk content, chunk url, query), the first two
  inside its single loop over the chunks. The prompt is a function of the chunks and the
  query alone: \<open>prompt_builder_run\<close> takes no state and returns none.
\<close>

theorem prompt_builder_run_substitution:
  "prompt_builder_run docs q =
     ''Given the information below, answer the query. Only use the provided context to generate the answer and output the used document links\<newline>                Context:\<newline>                '' @
     concat (map (\<lambda>d. ''\<newline>                    '' @ content d @
                         ''\<newline>                    URL: '' @
                         (case map_of (meta d) ''url'' of None \<Rightarrow> [] | Some u \<Rightarrow> u) @
                         ''\<newline>                '') docs) @
     ''\<newline>\<newline>                Question: '' @ q @ ''\<newline>                Answer:''
   \<and> concat (map unparse template_nodes) = template
   \<and> concat (map outputs template_nodes) = [Document_content, Document_meta_url, Query]
   \<and> sum_list (map loops template_nodes) = 1"
proof -
  have body: "concat (map (render_node docs q (Some d))
        [Data ''\<newline>                    '', Output Document_content,
         Data ''\<newline>                    URL: '', Output Document_meta_url,
         Data ''\<newline>                '']) =
      ''\<newline>                    '' @ content d @ ''\<newline>                    URL: '' @
      (case map_of (meta d) ''url'' of None \<Rightarrow> [] | Some u \<Rightarrow> u) @
      ''\<newline>                ''" for d
    by simp
  have "prompt_builder_run docs q =
     ''Given the information below, answer the query. Only use the provided context to generate the answer and output the used document links\<newline>                Context:\<newline>                '' @
     concat (map (\<lambda>d. ''\<newline>                    '' @ content d @
                         ''\<newline>                    URL: '' @
                         (case map_of (meta d) ''url'' of None \<Rightarrow> [] | Some u \<Rightarrow> u) @
                         ''\<newline>                '') docs) @
     ''\<newline>\<newline>                Question: '' @ q @ ''\<newline>                Answer:''"
    unfolding prompt_builder_run_def render_def template_nodes_def
    by (simp add: body del: append.simps)
  moreover have "concat (map unparse template_nodes) = template"
    by (rule template_nodes_unparse)
  moreover have "concat (map outputs template_nodes) = [Document_content, Document_meta_url, Query]"
    by (simp add: template_nodes_def)
  moreover have "sum_list (map loops template_nodes) = 1"
    by (simp add: template_nodes_def)
  ultimately show ?thesis by blast
qed

text \<open>
  With no documents the loop contributes nothing: the prompt is the opening text followed
  directly by the question.
\<close>

lemma prompt_builder_run_Nil:
  "prompt_builder_run [] q =
     ''Given the information below, answer the query. Only use the provided context to generate the answer and output the used document links\<newline>                Context:\<newline>                '' @
     ''\<newline>\<newline>                Question: '' @ q @ ''\<newline>                Answer:''"
  by (simp add: prompt_builder_run_def render_def template_nodes_def)

section \<open>Auxiliary facts about the construction\<close>

lemma and_then_Inr:
  "and_then r f = Inr y \<longleftrightarrow> (\<exists>v. r = Inr v \<and> f v = Inr y)"
  by (cases r) (simp_all add: and_then_def)

lemma after_Inr:
  "after r k = Inr y \<longleftrightarrow> r = None \<and> k = Inr y"
  by (cases r) (simp_all add: after_def)

lemma environ_getitem_Inr:
  "environ_getitem env name = Inr v \<longleftrightarrow> env name = Some v"
  by (cases "env name") (simp_all add: environ_getitem_def)

lemma build_components_Inr:
  "build_components lib env = Inr c \<longleftrightarrow>
     fetcher_init lib env = None \<and> converter_init lib env = None \<and>
     (\<exists>k. env ''COHERE_API_KEY'' = Some k \<and>
        reranker_init lib env \<lparr> ranker_api_key = Token k \<rparr> = None \<and>
        splitter_init lib env splitter_arguments = None \<and>
        prompt_builder_init lib env template = None \<and>
        generator_init lib env generator_arguments = None \<and>
        pipeline_init lib env component_names connections = None \<and>
        c = \<lparr> reranker = \<lparr> ranker_api_key = Token k \<rparr>,
              splitter = splitter_arguments,
              prompt_builder = template,
              generator = generator_arguments \<rparr>)"
  unfolding build_components_def after_Inr and_then_Inr environ_getitem_Inr
  by (simp only: sum.inject) blast


lemma build_canned:
  "build_components canned_library example_env =
     Inr \<lparr> reranker = \<lparr> ranker_api_key = Token ''c-key'' \<rparr>,
           splitter = splitter_arguments,
           prompt_builder = template,
           generator = generator_arguments \<rparr>"
  unfolding build_components_Inr
  by (simp add: canned_library_def example_env_def)

section \<open>Properties of the configuration\<close>




section \<open>Properties of the pipeline graph\<close>

text \<open>
  Claim C7. The pipeline's wiring is strictly linear. The connections form one chain
  through the components in the order they were added: every connection leads from a
  component to the next one; the receiver of every connection has that connection's
  sender as its only predecessor, and the sender has the receiver as its only successor;
  no component at all has more than one incoming or more than one outgoing connection, so
  there is no branching, fan-out or fan-in. The last conjunct lists every component's
  inputs: the one connected input, and the run's own inputs (the URLs for the fetcher, the
  query for the reranker and for the prompt builder), which come from the caller and not
  from another stage.
\<close>

theorem pipeline_is_chain:
  "distinct component_names
   \<and> connections = zip component_names (tl component_names)
   \<and> map (\<lambda>e. predecessors (snd e)) connections = map (\<lambda>e. [fst e]) connections
   \<and> map (\<lambda>e. successors (fst e)) connections = map (\<lambda>e. [snd e]) connections
   \<and> length (successors c) \<le> 1
   \<and> length (predecessors c) \<le> 1
   \<and> map inputs component_names =
       [[From_data ''urls''],
        [From_component ''fetcher''],
        [From_component ''converter''],
        [From_component ''splitter'', From_data ''query''],
        [From_component ''reranker'', From_data ''query''],
        [From_component ''prompt_builder'']]"
proof -
  have "distinct component_names"
    by (simp add: component_names_def)
  moreover have "connections = zip component_names (tl component_names)"
    by (simp add: connections_def component_names_def)
  moreover have "map (\<lambda>e. predecessors (snd e)) connections = map (\<lambda>e. [fst e]) connections"
    by (simp add: predecessors_def connections_def)
  moreover have "map (\<lambda>e. successors (fst e)) connections = map (\<lambda>e. [snd e]) connections"
    by (simp add: successors_def connections_def)
  moreover have "length (successors c) \<le> 1"
    by (auto simp add: successors_def connections_def)
  moreover have "length (predecessors c) \<le> 1"
    by (auto simp add: predecessors_def connections_def)
  moreover have "map inputs component_names =
       [[From_data ''urls''],
        [From_component ''fetcher''],
        [From_component ''converter''],
        [From_component ''splitter'', From_data ''query''],
        [From_component ''reranker'', From_data ''query''],
        [From_component ''prompt_builder'']]"
    by (simp add: component_names_def inputs_def predecessors_def connections_def
        run_data_def)
  ultimately show ?thesis by blast
qed

section \<open>Properties of the run\<close>

lemma list_getitem_0:
  "list_getitem xs 0 = (case xs of [] \<Rightarrow> Inl IndexError | x # _ \<Rightarrow> Inr x)"
  by (cases xs) (simp_all add: list_getitem_def)

lemma and_then_Inr_left: "and_then (Inr v) f = f v"
  by (simp add: and_then_def)

lemma pipeline_canned:
  "pipeline_run (canned_library \<lparr> generator_run := (\<lambda>env a p. Inr rs) \<rparr>) env c us q q' = Inr rs"
  by (simp add: pipeline_run_def canned_library_def and_then_def)

text \<open>
  Claim C9. The answer of the run is the generator's first reply, in both directions: the
  script prints \<open>a\<close> exactly when the components get built, the fetcher, the converter,
  the splitter and the reranker return in turn, and the generator, given the prompt
  rendered from the reranked chunks and the query, returns a list of replies whose first
  element is \<open>a\<close>. So whenever the generator returns at least one reply the first one
  is printed, whatever the others are, and nothing else is ever printed.
\<close>

theorem main_answer_is_first_reply:
  "main lib env = Inr a \<longleftrightarrow>
     (\<exists>c streams docs chunks ranked rest.
        build_components lib env = Inr c
        \<and> fetcher_run lib env urls = Inr streams
        \<and> converter_run lib env streams = Inr docs
        \<and> splitter_run lib env (splitter c) docs = Inr chunks
        \<and> reranker_run lib env (reranker c) query chunks = Inr ranked
        \<and> generator_run lib env (generator c) (prompt_builder_run ranked query) =
            Inr (a # rest))"
proof
  assume "main lib env = Inr a"
  then obtain c replies where
    c: "build_components lib env = Inr c"
    and run: "pipeline_run lib env c urls query query = Inr replies"
    and first: "list_getitem replies 0 = Inr a"
    unfolding main_def and_then_Inr by blast
  from first obtain rest where replies: "replies = a # rest"
    by (cases replies) (simp_all add: list_getitem_0)
  from run obtain streams docs chunks ranked where
    "fetcher_run lib env urls = Inr streams"
    "converter_run lib env streams = Inr docs"
    "splitter_run lib env (splitter c) docs = Inr chunks"
    "reranker_run lib env (reranker c) query chunks = Inr ranked"
    "generator_run lib env (generator c) (prompt_builder_run ranked query) = Inr replies"
    unfolding pipeline_run_def and_then_Inr by blast
  with c replies show "\<exists>c streams docs chunks ranked rest.
        build_components lib env = Inr c
        \<and> fetcher_run lib env urls = Inr streams
        \<and> converter_run lib env streams = Inr docs
        \<and> splitter_run lib env (splitter c) docs = Inr chunks
        \<and> reranker_run lib env (reranker c) query chunks = Inr ranked
        \<and> generator_run lib env (generator c) (prompt_builder_run ranked query) =
            Inr (a # rest)"
    by blast
next
  assume "\<exists>c streams docs chunks ranked rest.
        build_components lib env = Inr c
        \<and> fetcher_run lib env urls = Inr streams
        \<and> converter_run lib env streams = Inr docs
        \<and> splitter_run lib env (splitter c) docs = Inr chunks
        \<and> reranker_run lib env (reranker c) query chunks = Inr ranked
        \<and> generator_run lib env (generator c) (prompt_builder_run ranked query) =
            Inr (a # rest)"
  then obtain c streams docs chunks ranked rest where
    "build_components lib env = Inr c"
    "fetcher_run lib env urls = Inr streams"
    "converter_run lib env streams = Inr docs"
    "splitter_run lib env (splitter c) docs = Inr chunks"
    "reranker_run lib env (reranker c) query chunks = Inr ranked"
    "generator_run lib env (generator c) (prompt_builder_run ranked query) = Inr (a # rest)"
    by blast
  then show "main lib env = Inr a"
    by (simp add: main_def pipeline_run_def and_then_Inr_left list_getitem_0)
qed

theorem main_answer_is_first_reply_witness:
  "main canned_library example_env = Inr ''first''
   \<and> main greek_library example_env = Inr ''alpha''
   \<and> main silent_library example_env \<noteq> Inr ''first''"
proof -
  obtain c where c: "build_components canned_library example_env = Inr c"
    using build_canned by blast
  have streams: "fetcher_run canned_library example_env urls = Inr urls"
    by (simp add: canned_library_def)
  obtain docs where docs: "converter_run canned_library example_env urls = Inr docs"
    by (simp add: canned_library_def)
  have chunks: "splitter_run canned_library example_env (splitter c) docs = Inr docs"
    by (simp add: canned_library_def)
  have ranked: "reranker_run canned_library example_env (reranker c) query docs = Inr (rev docs)"
    by (simp add: canned_library_def)
  have gen: "generator_run canned_library example_env (generator c)
      (prompt_builder_run (rev docs) query) = Inr (''first'' # [''second''])"
    by (simp add: canned_library_def)
  from c streams docs chunks ranked gen
  have "\<exists>c streams docs chunks ranked rest.
        build_components canned_library example_env = Inr c
        \<and> fetcher_run canned_library example_env urls = Inr streams
        \<and> converter_run canned_library example_env streams = Inr docs
        \<and> splitter_run canned_library example_env (splitter c) docs = Inr chunks
        \<and> reranker_run canned_library example_env (reranker c) query chunks = Inr ranked
        \<and> generator_run canned_library example_env (generator c)
            (prompt_builder_run ranked query) = Inr (''first'' # rest)"
    by (intro exI conjI)
  then have canned: "main canned_library example_env = Inr ''first''"
    by (rule main_answer_is_first_reply [THEN iffD2])
  have c': "build_components greek_library example_env = Inr c"
    using c by (simp add: build_components_def greek_library_def canned_library_def)
  have streams': "fetcher_run greek_library example_env urls = Inr urls"
    and docs': "converter_run greek_library example_env urls = Inr docs"
    and chunks': "splitter_run greek_library example_env (splitter c) docs = Inr docs"
    and ranked': "reranker_run greek_library example_env (reranker c) query docs = Inr (rev docs)"
    and gen': "generator_run greek_library example_env (generator c)
      (prompt_builder_run (rev docs) query) = Inr (''alpha'' # [''beta'', ''gamma''])"
    using docs by (simp_all add: greek_library_def canned_library_def)
  from c' streams' docs' chunks' ranked' gen'
  have "\<exists>c streams docs chunks ranked rest.
        build_components greek_library example_env = Inr c
        \<and> fetcher_run greek_library example_env urls = Inr streams
        \<and> converter_run greek_library example_env streams = Inr docs
        \<and> splitter_run greek_library example_env (splitter c) docs = Inr chunks
        \<and> reranker_run greek_library example_env (reranker c) query chunks = Inr ranked
        \<and> generator_run greek_library example_env (generator c)
            (prompt_builder_run ranked query) = Inr (''alpha'' # rest)"
    by (intro exI conjI)
  then have greek: "main greek_library example_env = Inr ''alpha''"
    by (rule main_answer_is_first_reply [THEN iffD2])
  have silent: "main silent_library example_env \<noteq> Inr ''first''"
  proof
    assume "main silent_library example_env = Inr ''first''"
    then have "\<exists>c streams docs chunks ranked rest.
        build_components silent_library example_env = Inr c
        \<and> fetcher_run silent_library example_env urls = Inr streams
        \<and> converter_run silent_library example_env streams = Inr docs
        \<and> splitter_run silent_library example_env (splitter c) docs = Inr chunks
        \<and> reranker_run silent_library example_env (reranker c) query chunks = Inr ranked
        \<and> generator_run silent_library example_env (generator c)
            (prompt_builder_run ranked query) = Inr (''first'' # rest)"
      by (rule main_answer_is_first_reply [THEN iffD1])
    then show False
      by (elim exE conjE) (simp add: silent_library_def canned_library_def)
  qed
  from canned greek silent show ?thesis by (intro conjI)
qed

text \<open>
  Claim C10. The printed value is element 0 of the generator's replies. When the pipeline
  has run and the replies are empty, the script ends with \<open>IndexError\<close> and prints
  nothing; otherwise it prints the first reply.
\<close>

theorem main_prints_reply_0:
  assumes "build_components lib env = Inr c"
    and "pipeline_run lib env c urls query query = Inr replies"
  shows "main lib env = (if replies = [] then Inl IndexError else Inr (replies ! 0))"
  using assms by (cases replies) (simp_all add: main_def and_then_def list_getitem_0)

theorem main_prints_reply_0_witness:
  "\<exists>c. build_components silent_library example_env = Inr c
      \<and> pipeline_run silent_library example_env c urls query query = Inr []
      \<and> main silent_library example_env = Inl IndexError
      \<and> build_components canned_library example_env = Inr c
      \<and> pipeline_run canned_library example_env c urls query query = Inr [''first'', ''second'']
      \<and> main canned_library example_env = Inr ''first''"
proof -
  obtain c where c: "build_components canned_library example_env = Inr c"
    using build_canned by blast
  have c': "build_components silent_library example_env = Inr c"
    using c by (simp add: build_components_def silent_library_def canned_library_def)
  have silent: "pipeline_run silent_library example_env c urls query query = Inr []"
    unfolding silent_library_def by (rule pipeline_canned)
  have canned: "pipeline_run canned_library example_env c urls query query =
      Inr [''first'', ''second'']"
    by (simp add: pipeline_run_def canned_library_def and_then_def)
  from main_prints_reply_0 [OF c' silent] main_prints_reply_0 [OF c canned]
  have "main silent_library example_env = Inl IndexError"
    and "main canned_library example_env = Inr ''first''"
    by simp_all
  with c c' silent canned show ?thesis by (intro exI conjI)
qed

end
